theory Spec2Isabelle
  imports Complex_Main
begin

section \<open>Numbers\<close>

text \<open>
  The invoice engine computes on JavaScript \<open>number\<close>s. They are modelled as exact
  rationals: every input is a finite number, \<open>+\<close>, \<open>-\<close>, \<open>*\<close> and \<open>/\<close> are the exact
  operations, and the binary rounding error of the IEEE doubles is left out. Two places
  where HOL and JavaScript differ are kept visible:
  \<^item> \<open>a || b\<close> on numbers yields \<open>b\<close> when \<open>a\<close> is \<open>0\<close> (a falsy number), else \<open>a\<close>;
  \<^item> \<open>x / 0\<close> is \<open>0\<close> in HOL and an infinity or NaN in JavaScript, so every statement
    about a quotient carries the hypothesis that the divisor is not zero.
\<close>

definition or_else :: "rat \<Rightarrow> rat \<Rightarrow> rat" where
  "or_else a b = (if a = 0 then b else a)"

text \<open>\<open>Math.round\<close>: the nearest integer, a tie going to the larger one.\<close>

definition Math_round :: "rat \<Rightarrow> int" where
  "Math_round x = \<lfloor>x + 1 / 2\<rfloor>"

text \<open>\<open>const round = (num: number) => Math.round(num * 100) / 100\<close>\<close>

definition round_num :: "rat \<Rightarrow> rat" where
  "round_num num = of_int (Math_round (num * 100)) / 100"

section \<open>Data model of the invoice\<close>

datatype InvoiceVATType = NON_VAT | VAT

datatype VATSubType = STANDARD | EXEMPT | ZERO_RATED

datatype InvoicePaymentMethod = CASH | BANK | EWALLET | CHECK

datatype InvoiceType = SALES | SERVICE | COMMERCIAL

record BIRMetadata =
  formNumber :: string
  invoiceNumber :: string
  series :: string
  rdo :: string
  vat_type :: InvoiceVATType
  category :: InvoiceType
  companyLogo :: "string option"

record OrderMetadata =
  label :: string
  description :: "string option"
  quantity :: rat
  unit_of :: string
  unitPrice :: rat
  amount :: rat

record InvoiceDiscount =
  scPWD :: rat
  other :: rat
  totalDiscount :: rat

record VATMetadata =
  vat_rate :: rat
  vatSubtype :: VATSubType
  isVATInclusive :: bool
  totalVAT :: rat
  salesVATable :: rat
  vatExemptSales :: rat
  vatZeroRatedSales :: rat
  totalSalesVATInclusive :: rat

record PercentageTaxMetadata =
  pt_rate :: rat
  totalPercentageTax :: rat

record WithholdingTaxMetadata =
  wht_rate :: rat
  totalWithheldTax :: rat

record InvoiceBreakdown =
  totalSales :: rat
  netReceivable :: rat
  discount :: InvoiceDiscount
  totalAmountDue :: rat
  salesPT :: rat
  exemptSales :: rat
  vat :: VATMetadata
  percentageTax :: PercentageTaxMetadata
  withholdingTax :: WithholdingTaxMetadata

record OrderInformation =
  currency :: string
  orders :: "OrderMetadata list"
  breakdown :: InvoiceBreakdown

record BankInformation =
  bank_name :: string
  accountNumber :: string
  branch :: string
  bank_code :: string
  bank_address :: string

record CheckInformation =
  check_number :: string
  check_date :: string

record PaymentInformation =
  pay_method :: InvoicePaymentMethod
  bank :: "BankInformation option"
  pay_check :: "CheckInformation option"
  referenceNumber :: "string option"

record LegalEntity =
  name :: string
  tin :: string
  address :: string
  businessName :: string
  contactNumber :: "string option"
  emailAddress :: "string option"
  website :: "string option"
  oscaPWDNumber :: "string option"

record DigitalInvoice =
  inv_id :: string
  metadata :: BIRMetadata
  customer :: LegalEntity
  issuer :: LegalEntity
  order_info :: OrderInformation
  payment :: PaymentInformation
  timestamp :: string

text \<open>The thrown \<open>Error\<close>s, one constructor for each message of the source.\<close>

datatype error =
  UnsupportedVATType
  | MissingProperty string
  | InvalidInvoiceInput
  | InvoiceExists string
  | NotFileable string
  | DuplicateInBatch string
  | InvalidYear
  | NoVATRates
  | OtherError string

section \<open>Constants of the engine\<close>

definition defaultTaxRates_vat :: rat where
  "defaultTaxRates_vat = 12 / 100"

definition defaultTaxRates_percentageTax :: rat where
  "defaultTaxRates_percentageTax = 3 / 100"

definition defaultTaxRates_withholdingTax :: rat where
  "defaultTaxRates_withholdingTax = 5 / 100"

definition defaultSCPWDDiscount :: rat where
  "defaultSCPWDDiscount = 2 / 10"

section \<open>Strings\<close>

text \<open>
  \<open>String.prototype.trim\<close> on the ASCII white space (tab, line feed, vertical tab, form
  feed, carriage return, space); the white space beyond ASCII that JavaScript also strips
  is not modelled.
\<close>

definition is_ws :: "char \<Rightarrow> bool" where
  "is_ws c = (c \<in> set [CHR 0x09, CHR 0x0A, CHR 0x0B, CHR 0x0C, CHR 0x0D, CHR '' ''])"

definition trim :: "string \<Rightarrow> string" where
  "trim s = rev (dropWhile is_ws (rev (dropWhile is_ws s)))"

section \<open>The breakdown engine\<close>

text \<open>\<open>!!this.customer?.oscaPWDNumber?.trim()\<close>\<close>

definition isEligibleForScPwdDiscount :: "DigitalInvoice \<Rightarrow> bool" where
  "isEligibleForScPwdDiscount iv =
     (case oscaPWDNumber (customer iv) of
        None \<Rightarrow> False
      | Some s \<Rightarrow> trim s \<noteq> [])"

text \<open>
  \<open>computeBreakdown\<close> replaces \<open>this.order.breakdown\<close>; the model returns the invoice
  with the new breakdown. The local constants keep the names of the source. The
  fallbacks \<open>discount || {...}\<close> and \<open>vatSubtype || STANDARD\<close> and the optional chaining
  on the tax blocks guard against properties that are absent; the records have all
  their fields, as the interfaces of the source declare them. The method does not throw.
\<close>

definition computeBreakdown :: "DigitalInvoice \<Rightarrow> DigitalInvoice" where
  "computeBreakdown iv =
    (let isVAT = (vat_type (metadata iv) = VAT);
         ords = orders (order_info iv);
         b = breakdown (order_info iv);
         isVATIncl = isVATInclusive (vat b)
     in
     if ords = [] then
       iv\<lparr>order_info := (order_info iv)\<lparr>breakdown :=
         \<lparr>totalSales = 0,
          netReceivable = 0,
          discount = \<lparr>scPWD = 0, other = 0, totalDiscount = 0\<rparr>,
          totalAmountDue = 0,
          salesPT = 0,
          exemptSales = 0,
          vat = \<lparr>vat_rate = (if isVAT then defaultTaxRates_vat else 0),
                 vatSubtype = STANDARD,
                 isVATInclusive = isVATIncl,
                 totalVAT = 0,
                 salesVATable = 0,
                 vatExemptSales = 0,
                 vatZeroRatedSales = 0,
                 totalSalesVATInclusive = 0\<rparr>,
          percentageTax =
            \<lparr>pt_rate = (if isVAT then 0 else defaultTaxRates_percentageTax),
             totalPercentageTax = 0\<rparr>,
          withholdingTax = (withholdingTax b)\<lparr>totalWithheldTax := 0\<rparr>\<rparr>\<rparr>\<rparr>
     else
       let totalSales_c = foldl (\<lambda>acc item. acc + amount item) 0 ords;
           discount0 = discount b;
           otherDiscounts = other discount0;
           netSales = totalSales_c - otherDiscounts;
           vatRate = (if isVAT then or_else (vat_rate (vat b)) defaultTaxRates_vat else 0);
           vatMultiplier = 1 + vatRate;
           subtype = vatSubtype (vat b);
           discount1 =
             (if isEligibleForScPwdDiscount iv then
                (if isVAT \<and> isVATIncl then
                   discount0\<lparr>scPWD := (netSales / (1 + vatRate)) * defaultSCPWDDiscount\<rparr>
                 else
                   discount0\<lparr>scPWD := netSales * defaultSCPWDDiscount\<rparr>)
              else discount0);
           discount2 = discount1\<lparr>totalDiscount := scPWD discount1 + other discount1\<rparr>;
           salesLessScPwdDiscounts = netSales - scPWD discount2;
           whtRate = or_else (wht_rate (withholdingTax b)) 0;
           totalWithheldTaxNonVAT = netSales * whtRate;
           ptRate = or_else (pt_rate (percentageTax b)) defaultTaxRates_percentageTax;
           totalPercentageTax_c = salesLessScPwdDiscounts * ptRate;
           netReceivableNonVAT = netSales - totalWithheldTaxNonVAT - totalPercentageTax_c;
           totalAmountPayableNonVAT = netSales - totalWithheldTaxNonVAT
       in
       if \<not> isVAT then
         iv\<lparr>order_info := (order_info iv)\<lparr>breakdown :=
           \<lparr>totalSales = round_num totalSales_c,
            netReceivable = round_num netReceivableNonVAT,
            discount = \<lparr>scPWD = round_num (scPWD discount2),
                        other = round_num (other discount2),
                        totalDiscount = round_num (totalDiscount discount2)\<rparr>,
            totalAmountDue = round_num totalAmountPayableNonVAT,
            salesPT = (if scPWD discount2 > 0 then round_num salesLessScPwdDiscounts
                       else round_num netSales),
            exemptSales = 0,
            vat = \<lparr>vat_rate = 0,
                   vatSubtype = STANDARD,
                   isVATInclusive = isVATInclusive (vat b),
                   totalVAT = 0,
                   salesVATable = 0,
                   vatExemptSales = 0,
                   vatZeroRatedSales = 0,
                   totalSalesVATInclusive = 0\<rparr>,
            percentageTax =
              \<lparr>pt_rate = ptRate, totalPercentageTax = round_num totalPercentageTax_c\<rparr>,
            withholdingTax =
              \<lparr>wht_rate = whtRate,
               totalWithheldTax = round_num totalWithheldTaxNonVAT\<rparr>\<rparr>\<rparr>\<rparr>
       else
         let scPWDDiscount = or_else (scPWD discount2) 0;
             (salesVATable_c, vatExemptSales_c, vatZeroRatedSales_c, totalVAT_c, baseAmount) =
               (case subtype of
                  EXEMPT \<Rightarrow> (0, netSales, 0, 0, 0)
                | ZERO_RATED \<Rightarrow> (0, 0, netSales, 0, 0)
                | STANDARD \<Rightarrow>
                    (if isVATIncl then
                       (netSales / vatMultiplier - scPWDDiscount,
                        scPWDDiscount,
                        0,
                        (netSales / vatMultiplier - scPWDDiscount) * vatRate,
                        netSales / vatMultiplier)
                     else
                       (netSales - scPWDDiscount,
                        0,
                        0,
                        (netSales - scPWDDiscount) * vatRate,
                        netSales - scPWDDiscount)));
             totalSalesVATInclusive_c =
               (if isVATIncl then netSales else salesVATable_c + totalVAT_c);
             totalWithheldTaxVAT = baseAmount * whtRate;
             netReceivableVAT = baseAmount - totalWithheldTaxVAT;
             totalAmountDuePayable = totalSalesVATInclusive_c - totalWithheldTaxVAT
         in
         iv\<lparr>order_info := (order_info iv)\<lparr>breakdown :=
           \<lparr>totalSales = round_num totalSales_c,
            netReceivable = round_num netReceivableVAT,
            discount = \<lparr>scPWD = round_num (scPWD discount2),
                        other = round_num (other discount2),
                        totalDiscount = round_num (totalDiscount discount2)\<rparr>,
            totalAmountDue = round_num totalAmountDuePayable,
            salesPT = 0,
            exemptSales = 0,
            vat = \<lparr>vat_rate = vatRate,
                   vatSubtype = vatSubtype (vat b),
                   isVATInclusive = isVATIncl,
                   totalVAT = round_num totalVAT_c,
                   salesVATable = round_num salesVATable_c,
                   vatExemptSales = round_num vatExemptSales_c,
                   vatZeroRatedSales = round_num vatZeroRatedSales_c,
                   totalSalesVATInclusive = round_num totalSalesVATInclusive_c\<rparr>,
            percentageTax = \<lparr>pt_rate = 0, totalPercentageTax = 0\<rparr>,
            withholdingTax =
              \<lparr>wht_rate = whtRate,
               totalWithheldTax = round_num totalWithheldTaxVAT\<rparr>\<rparr>\<rparr>\<rparr>)"

text \<open>
  A method either returns or throws; in both cases the object is left in some state. The
  state is part of the outcome, so that what a throwing call did to the object before it
  threw can be stated.
\<close>

datatype 's outcome = Returned 's | Threw error 's

text \<open>
  \<open>toggleVATInclusive(bool?: boolean)\<close>: the optional argument is \<open>None\<close> when omitted.
  \<open>bool || !isVATInclusive\<close> is \<open>true\<close> when \<open>bool\<close> is \<open>true\<close>, and the negated flag
  otherwise.
\<close>

definition toggleVATInclusive :: "bool option \<Rightarrow> DigitalInvoice \<Rightarrow> DigitalInvoice outcome" where
  "toggleVATInclusive arg iv =
     (if vat_type (metadata iv) \<noteq> VAT then Threw UnsupportedVATType iv
      else
        let b = breakdown (order_info iv);
            flag = (case arg of
                      Some True \<Rightarrow> True
                    | _ \<Rightarrow> \<not> isVATInclusive (vat b));
            iv' = iv\<lparr>order_info := (order_info iv)\<lparr>breakdown :=
                         b\<lparr>vat := (vat b)\<lparr>isVATInclusive := flag\<rparr>\<rparr>\<rparr>\<rparr>
        in Returned (computeBreakdown iv'))"

text \<open>
  The setters used below. Each assigns its field and recomputes the breakdown; the
  assignment of \<open>undefined\<close> or of a default that the next statement overwrites has no
  effect and is left out.
\<close>

definition setListOrders :: "OrderMetadata list \<Rightarrow> DigitalInvoice \<Rightarrow> DigitalInvoice" where
  "setListOrders list iv = computeBreakdown (iv\<lparr>order_info := (order_info iv)\<lparr>orders := list\<rparr>\<rparr>)"

definition setCustomerOSCAPWDNumber :: "string \<Rightarrow> DigitalInvoice \<Rightarrow> DigitalInvoice" where
  "setCustomerOSCAPWDNumber input iv =
     computeBreakdown (iv\<lparr>customer := (customer iv)\<lparr>oscaPWDNumber := Some input\<rparr>\<rparr>)"

definition setRateWithholding :: "rat \<Rightarrow> DigitalInvoice \<Rightarrow> DigitalInvoice" where
  "setRateWithholding input iv =
     (let b = breakdown (order_info iv) in
      computeBreakdown (iv\<lparr>order_info := (order_info iv)\<lparr>breakdown :=
        b\<lparr>withholdingTax := (withholdingTax b)\<lparr>wht_rate := input\<rparr>\<rparr>\<rparr>\<rparr>))"

definition disableWithholdingTax :: "DigitalInvoice \<Rightarrow> DigitalInvoice" where
  "disableWithholdingTax iv =
     (let b = breakdown (order_info iv) in
      computeBreakdown (iv\<lparr>order_info := (order_info iv)\<lparr>breakdown :=
        b\<lparr>withholdingTax := (withholdingTax b)\<lparr>wht_rate := 0\<rparr>\<rparr>\<rparr>\<rparr>))"

definition disablePercentageTax :: "DigitalInvoice \<Rightarrow> DigitalInvoice" where
  "disablePercentageTax iv =
     (let b = breakdown (order_info iv) in
      computeBreakdown (iv\<lparr>order_info := (order_info iv)\<lparr>breakdown :=
        b\<lparr>percentageTax := (percentageTax b)\<lparr>pt_rate := 0\<rparr>\<rparr>\<rparr>\<rparr>))"

definition setRateVAT :: "rat \<Rightarrow> DigitalInvoice \<Rightarrow> DigitalInvoice outcome" where
  "setRateVAT input iv =
     (let b = breakdown (order_info iv) in
      if vat_type (metadata iv) \<noteq> VAT then
        Threw NoVATRates
          (iv\<lparr>order_info := (order_info iv)\<lparr>breakdown := b\<lparr>vat := (vat b)\<lparr>vat_rate := 0\<rparr>\<rparr>\<rparr>\<rparr>)
      else
        Returned (computeBreakdown (iv\<lparr>order_info := (order_info iv)\<lparr>breakdown :=
          b\<lparr>vat := (vat b)\<lparr>vat_rate := input\<rparr>\<rparr>\<rparr>\<rparr>)))"

section \<open>Income tax schedule\<close>

datatype IncomeTaxType = GRADUATED | FLAT

definition computeGraduatedIncomeTax :: "rat \<Rightarrow> IncomeTaxType \<Rightarrow> rat" where
  "computeGraduatedIncomeTax income ty =
     (let FLAT_TAX_THRESHOLD = 250000; FLAT_TAX_RATE = 8 / 100 in
      if ty = FLAT then
        (if income > FLAT_TAX_THRESHOLD then (income - FLAT_TAX_THRESHOLD) * FLAT_TAX_RATE else 0)
      else if income \<le> 250000 then 0
      else if income \<le> 400000 then (income - 250000) * (15 / 100)
      else if income \<le> 800000 then 22500 + (income - 400000) * (2 / 10)
      else if income \<le> 2000000 then 102500 + (income - 800000) * (25 / 100)
      else if income \<le> 8000000 then 402500 + (income - 2000000) * (3 / 10)
      else 2202500 + (income - 8000000) * (35 / 100))"

section \<open>Identifiers, construction and the JSON projection of an invoice\<close>

text \<open>
  The clock is an input of the model: \<open>unixTime\<close> is \<open>Math.floor(Date.now() / 1000)\<close> and
  \<open>isoNow\<close> is \<open>new Date().toISOString()\<close> at the time of the call.
\<close>

record Clock =
  unixTime :: nat
  isoNow :: string

fun string_of_nat :: "nat \<Rightarrow> string" where
  "string_of_nat n =
     (if n < 10 then [char_of (48 + n)]
      else string_of_nat (n div 10) @ [char_of (48 + n mod 10)])"

text \<open>\<open>toLowerCase\<close> and the character class \<open>[a-z0-9]\<close>, on ASCII.\<close>

definition toLowerCase_char :: "char \<Rightarrow> char" where
  "toLowerCase_char c =
     (let n = (of_char c :: nat) in if 65 \<le> n \<and> n \<le> 90 then char_of (n + 32) else c)"

definition is_slug_char :: "char \<Rightarrow> bool" where
  "is_slug_char c =
     (let n = (of_char c :: nat) in (97 \<le> n \<and> n \<le> 122) \<or> (48 \<le> n \<and> n \<le> 57))"

text \<open>
  \<open>.replace(/[^a-z0-9]+/g, "-")\<close>: every maximal run of other characters becomes one
  dash. The flag says whether the previous character belonged to such a run.
\<close>

fun replace_runs :: "bool \<Rightarrow> string \<Rightarrow> string" where
  "replace_runs in_run [] = []"
| "replace_runs in_run (c # cs) =
     (if is_slug_char c then c # replace_runs False cs
      else if in_run then replace_runs True cs
      else CHR ''-'' # replace_runs True cs)"

text \<open>\<open>.replace(/^-+|-+$/g, "")\<close>\<close>

definition strip_dashes :: "string \<Rightarrow> string" where
  "strip_dashes s =
     rev (dropWhile (\<lambda>c. c = CHR ''-'') (rev (dropWhile (\<lambda>c. c = CHR ''-'') s)))"

definition autogenerateID :: "Clock \<Rightarrow> string \<Rightarrow> string" where
  "autogenerateID clock input =
     (let titleText = strip_dashes (replace_runs False (map toLowerCase_char input))
      in ''invoice-'' @ titleText @ ''-'' @ string_of_nat (unixTime clock))"

text \<open>
  The constructor, with the parameters as its signature types them: \<open>id\<close> and
  \<open>timestamp\<close> may be absent, the five objects are present. \<open>x || d\<close> on a string takes
  \<open>d\<close> when \<open>x\<close> is absent or empty.
\<close>

definition str_or_else :: "string option \<Rightarrow> string \<Rightarrow> string" where
  "str_or_else x d = (case x of None \<Rightarrow> d | Some v \<Rightarrow> if v = [] then d else v)"

definition DigitalInvoice_new ::
  "Clock \<Rightarrow> string option \<Rightarrow> BIRMetadata \<Rightarrow> LegalEntity \<Rightarrow> LegalEntity \<Rightarrow>
   OrderInformation \<Rightarrow> PaymentInformation \<Rightarrow> string option \<Rightarrow> DigitalInvoice" where
  "DigitalInvoice_new clock id_arg metadata_arg customer_arg issuer_arg order_arg payment_arg
       timestamp_arg =
     \<lparr>inv_id = str_or_else id_arg
                 (autogenerateID clock
                    (str_or_else (Some (invoiceNumber metadata_arg)) ''bir-invoice'')),
      metadata = metadata_arg,
      customer = customer_arg,
      issuer = issuer_arg,
      order_info = order_arg,
      payment = payment_arg,
      timestamp = str_or_else timestamp_arg (isoNow clock)\<rparr>"

definition initialize :: "Clock \<Rightarrow> InvoiceVATType \<Rightarrow> DigitalInvoice" where
  "initialize clock ty =
     (let defaultMetadata =
            \<lparr>formNumber = ''2703'', invoiceNumber = ''1000A0001001'',
             series = ''January 2020 (ENCS)'', rdo = ''000'', vat_type = ty,
             category = SALES, companyLogo = None\<rparr>;
          defaultCustomer =
            \<lparr>name = ''Customer XYZ'', tin = ''100000000000'',
             address = ''123 ABC St., Brgy. DEF, Manila City, NCR, Philippines'',
             businessName = ''The Zelijah World'', contactNumber = None,
             emailAddress = None, website = None, oscaPWDNumber = None\<rparr>;
          defaultSeller =
            \<lparr>name = ''Taxpayer ABC'', tin = ''100000000000'',
             address = ''123 XYZ St., Brgy. DEF, Makati City, NCR, Philippines'',
             businessName = ''The Zelijah World'', contactNumber = None,
             emailAddress = None, website = None, oscaPWDNumber = None\<rparr>;
          defaultOrder =
            \<lparr>currency = ''PHP'',
             orders = [],
             breakdown =
               \<lparr>totalSales = 0,
                netReceivable = 0,
                discount = \<lparr>scPWD = 0, other = 0, totalDiscount = 0\<rparr>,
                totalAmountDue = 0,
                salesPT = 0,
                exemptSales = 0,
                vat = \<lparr>vat_rate = (if ty = VAT then defaultTaxRates_vat else 0),
                       vatSubtype = STANDARD,
                       isVATInclusive = True,
                       totalVAT = 0,
                       salesVATable = 0,
                       vatExemptSales = 0,
                       vatZeroRatedSales = 0,
                       totalSalesVATInclusive = 0\<rparr>,
                percentageTax =
                  \<lparr>pt_rate = (if ty = NON_VAT then defaultTaxRates_percentageTax else 0),
                   totalPercentageTax = 0\<rparr>,
                withholdingTax =
                  \<lparr>wht_rate = defaultTaxRates_withholdingTax, totalWithheldTax = 0\<rparr>\<rparr>\<rparr>;
          defaultPayment =
            \<lparr>pay_method = CASH, bank = None, pay_check = None, referenceNumber = None\<rparr>
      in DigitalInvoice_new clock None defaultMetadata defaultCustomer defaultSeller
           defaultOrder defaultPayment None)"

text \<open>
  The plain object that \<open>toJSON\<close> returns and \<open>parseFromJSON\<close> reads: every property
  may be missing from an object that is parsed. Only the object form of the argument of
  \<open>parseFromJSON\<close> is modelled, not the string handed to \<open>JSON.parse\<close>.
\<close>

record InvoiceJSON =
  j_id :: "string option"
  j_metadata :: "BIRMetadata option"
  j_customer :: "LegalEntity option"
  j_issuer :: "LegalEntity option"
  j_order :: "OrderInformation option"
  j_payment :: "PaymentInformation option"
  j_timestamp :: "string option"

definition toJSON :: "DigitalInvoice \<Rightarrow> InvoiceJSON" where
  "toJSON iv =
     \<lparr>j_id = Some (inv_id iv),
      j_metadata = Some (metadata iv),
      j_customer = Some (customer iv),
      j_issuer = Some (issuer iv),
      j_order = Some (order_info iv),
      j_payment = Some (payment iv),
      j_timestamp = Some (timestamp iv)\<rparr>"

text \<open>
  \<open>parseFromJSON\<close> checks that \<open>id\<close> is present and not empty, then calls the
  constructor with \<open>undefined\<close> in the place of the id.
\<close>

definition parseFromJSON :: "Clock \<Rightarrow> InvoiceJSON \<Rightarrow> error + DigitalInvoice" where
  "parseFromJSON clock parsedData =
     (if j_id parsedData = None \<or> j_id parsedData = Some [] then Inl (MissingProperty ''id'')
      else case j_metadata parsedData of
        None \<Rightarrow> Inl (MissingProperty ''metadata'')
      | Some m \<Rightarrow>
      (case j_customer parsedData of
        None \<Rightarrow> Inl (MissingProperty ''customer'')
      | Some c \<Rightarrow>
      (case j_issuer parsedData of
        None \<Rightarrow> Inl (MissingProperty ''issuer'')
      | Some i \<Rightarrow>
      (case j_order parsedData of
        None \<Rightarrow> Inl (MissingProperty ''order'')
      | Some ord \<Rightarrow>
      (case j_payment parsedData of
        None \<Rightarrow> Inl (MissingProperty ''payment'')
      | Some p \<Rightarrow>
          Inr (DigitalInvoice_new clock None m c i ord p (j_timestamp parsedData)))))))"

section \<open>Money\<close>

text \<open>
  \<open>Money\<close> holds a \<open>Decimal\<close> and a currency code. The decimal is modelled by the
  rational it denotes. \<open>toFixed(2)\<close> yields the decimal string of the amount rounded to
  two places under \<open>Decimal.ROUND_HALF_UP\<close>, the default rounding of the library
  (nearest, a tie away from zero); the model keeps the number that this string denotes,
  which \<open>new Decimal(string)\<close> reads back exactly. The sign of a negative zero
  (\<open>"-0.00"\<close>) is not modelled.
\<close>

record Money =
  money_amount :: rat
  money_currency :: string

definition toUpperCase_char :: "char \<Rightarrow> char" where
  "toUpperCase_char c =
     (let n = (of_char c :: nat) in if 97 \<le> n \<and> n \<le> 122 then char_of (n - 32) else c)"

definition Money_new :: "rat \<Rightarrow> string \<Rightarrow> Money" where
  "Money_new v cur = \<lparr>money_amount = v, money_currency = map toUpperCase_char cur\<rparr>"

definition ROUND_HALF_UP :: "rat \<Rightarrow> int" where
  "ROUND_HALF_UP x = (if 0 \<le> x then \<lfloor>x + 1 / 2\<rfloor> else - \<lfloor>- x + 1 / 2\<rfloor>)"

definition toFixed2 :: "rat \<Rightarrow> rat" where
  "toFixed2 x = of_int (ROUND_HALF_UP (x * 100)) / 100"

record MoneyJSON =
  mj_amount :: rat
  mj_currency :: string

definition Money_toJSON :: "Money \<Rightarrow> MoneyJSON" where
  "Money_toJSON m = \<lparr>mj_amount = toFixed2 (money_amount m), mj_currency = money_currency m\<rparr>"

definition Money_parseFromJSON :: "MoneyJSON \<Rightarrow> Money" where
  "Money_parseFromJSON d = Money_new (mj_amount d) (mj_currency d)"

definition toCentavos :: "Money \<Rightarrow> int" where
  "toCentavos m = ROUND_HALF_UP (money_amount m * 100)"

section \<open>The filing session\<close>

datatype QuarterPeriod = Q1 | Q2 | Q3 | Q4

record VATSettings =
  vs_rate :: rat
  vs_type :: InvoiceVATType

record BuwisFriendTaxSettings =
  ts_vat :: VATSettings
  ts_percentageTax :: rat
  incomeTaxType :: IncomeTaxType

record BuwisFriendMetadata =
  taxpayer :: LegalEntity
  year :: int
  quarter :: QuarterPeriod
  userID :: string
  taxSettings :: BuwisFriendTaxSettings

text \<open>
  The class \<open>SalesSummaryReport\<close> is not among the sources. The session only stores the
  summary and calls three of its operations, so the summary is a type parameter and the
  operations are taken from the environment; each of them may throw. The environment
  also holds the built-in \<open>new Date(string)\<close>: the time value in milliseconds, or
  \<open>None\<close> for an invalid date, whose time value is NaN.
\<close>

record 's BuwisFriend =
  bf_id :: string
  bf_metadata :: BuwisFriendMetadata
  invoices :: "DigitalInvoice list"
  summary :: 's
  bf_timestamp :: string

record 's Env =
  Date_of :: "string \<Rightarrow> int option"
  summary_clearInvoices :: "'s \<Rightarrow> error + 's"
  summary_initialize ::
    "LegalEntity \<Rightarrow> string \<Rightarrow> QuarterPeriod \<Rightarrow> int \<Rightarrow> IncomeTaxType \<Rightarrow> error + 's"
  summary_updateInvoices :: "'s \<Rightarrow> DigitalInvoice list \<Rightarrow> error + 's"

text \<open>\<open>a < b\<close> on two dates compares the time values and is false when one is NaN.\<close>

definition date_lt :: "int option \<Rightarrow> int option \<Rightarrow> bool" where
  "date_lt a b = (case (a, b) of (Some x, Some y) \<Rightarrow> x < y | _ \<Rightarrow> False)"

text \<open>
  \<open>getQuarterDateRange\<close>, called with a year that is an integer. The template string
  \<open>`${targetYear}-01-01T00:00:00.000Z`\<close> is the decimal numeral of the year followed by
  the fixed text.
\<close>

definition getQuarterDateRange ::
  "(string \<Rightarrow> int option) \<Rightarrow> QuarterPeriod \<Rightarrow> int \<Rightarrow> error + (int option \<times> int option)" where
  "getQuarterDateRange D q targetYear =
     (if targetYear < 1800 \<or> targetYear > 3000 then Inl InvalidYear
      else
        let y = string_of_nat (nat targetYear) in
        case q of
          Q1 \<Rightarrow> Inr (D (y @ ''-01-01T00:00:00.000Z''), D (y @ ''-03-31T23:59:59.999Z''))
        | Q2 \<Rightarrow> Inr (D (y @ ''-04-01T00:00:00.000Z''), D (y @ ''-06-30T23:59:59.999Z''))
        | Q3 \<Rightarrow> Inr (D (y @ ''-07-01T00:00:00.000Z''), D (y @ ''-09-30T23:59:59.999Z''))
        | Q4 \<Rightarrow> Inr (D (y @ ''-10-01T00:00:00.000Z''), D (y @ ''-12-31T23:59:59.999Z'')))"

text \<open>
  \<open>invoices.sort((a, b) => time(a) - time(b))\<close>: a stable sort; a comparison that
  yields NaN counts as \<open>0\<close>. The model is a stable insertion sort, which is what every
  engine computes when all dates are valid.
\<close>

definition time_le :: "(string \<Rightarrow> int option) \<Rightarrow> DigitalInvoice \<Rightarrow> DigitalInvoice \<Rightarrow> bool" where
  "time_le D a b =
     (case (D (timestamp a), D (timestamp b)) of
        (Some x, Some y) \<Rightarrow> x - y \<le> 0
      | _ \<Rightarrow> True)"

fun insert_by_time ::
  "(string \<Rightarrow> int option) \<Rightarrow> DigitalInvoice \<Rightarrow> DigitalInvoice list \<Rightarrow> DigitalInvoice list" where
  "insert_by_time D x [] = [x]"
| "insert_by_time D x (y # ys) =
     (if time_le D x y then x # y # ys else y # insert_by_time D x ys)"

definition sort_by_time ::
  "(string \<Rightarrow> int option) \<Rightarrow> DigitalInvoice list \<Rightarrow> DigitalInvoice list" where
  "sort_by_time D xs = foldr (insert_by_time D) xs []"

definition refreshSummary :: "'s Env \<Rightarrow> 's BuwisFriend \<Rightarrow> 's BuwisFriend outcome" where
  "refreshSummary env this =
     (if invoices this = [] then
        (case summary_clearInvoices env (summary this) of
           Inl e \<Rightarrow> Threw e this
         | Inr updatedSummary \<Rightarrow> Returned (this\<lparr>summary := updatedSummary\<rparr>))
      else
        let m = bf_metadata this in
        case summary_initialize env (taxpayer m) (userID m) (quarter m) (year m)
               (incomeTaxType (taxSettings m)) of
          Inl e \<Rightarrow> Threw e this
        | Inr newSummary \<Rightarrow>
            (case summary_updateInvoices env newSummary (invoices this) of
               Inl e \<Rightarrow> Threw e this
             | Inr updatedSummary \<Rightarrow> Returned (this\<lparr>summary := updatedSummary\<rparr>)))"

text \<open>\<open>doesInvoiceExist\<close> on a \<open>DigitalInvoice\<close> argument.\<close>

definition doesInvoiceExist :: "'s BuwisFriend \<Rightarrow> DigitalInvoice \<Rightarrow> error + bool" where
  "doesInvoiceExist this invoice =
     (let n = invoiceNumber (metadata invoice) in
      if n \<noteq> [] \<and> trim n \<noteq> [] then
        Inr (list_ex (\<lambda>i. invoiceNumber (metadata i) = n) (invoices this))
      else Inl InvalidInvoiceInput)"

definition addInvoice :: "'s Env \<Rightarrow> 's BuwisFriend \<Rightarrow> DigitalInvoice \<Rightarrow> 's BuwisFriend outcome" where
  "addInvoice env this invoice =
     (case doesInvoiceExist this invoice of
        Inl e \<Rightarrow> Threw e this
      | Inr True \<Rightarrow> Threw (InvoiceExists (invoiceNumber (metadata invoice))) this
      | Inr False \<Rightarrow>
          (case getQuarterDateRange (Date_of env) (quarter (bf_metadata this))
                  (year (bf_metadata this)) of
             Inl e \<Rightarrow> Threw e this
           | Inr (startDate, endDate) \<Rightarrow>
               let issuedDate = Date_of env (timestamp invoice) in
               if date_lt issuedDate startDate \<or> date_lt endDate issuedDate then
                 Threw (NotFileable (invoiceNumber (metadata invoice))) this
               else
                 refreshSummary env
                   (this\<lparr>invoices := sort_by_time (Date_of env) (invoices this @ [invoice])\<rparr>)))"

text \<open>
  The validation loop of \<open>addInvoices\<close>: the first offending invoice makes it throw.
  \<open>seenInBatch\<close> is the set of the numbers met so far.
\<close>

fun validateBatch ::
  "'s Env \<Rightarrow> 's BuwisFriend \<Rightarrow> int option \<Rightarrow> int option \<Rightarrow> string list \<Rightarrow>
   DigitalInvoice list \<Rightarrow> error option" where
  "validateBatch env this startDate endDate seenInBatch [] = None"
| "validateBatch env this startDate endDate seenInBatch (i # rest) =
     (let issuedDate = Date_of env (timestamp i);
          n = invoiceNumber (metadata i)
      in
      if date_lt issuedDate startDate \<or> date_lt endDate issuedDate then Some (NotFileable n)
      else if n \<in> set seenInBatch then Some (DuplicateInBatch n)
      else
        case doesInvoiceExist this i of
          Inl e \<Rightarrow> Some e
        | Inr True \<Rightarrow> Some (InvoiceExists n)
        | Inr False \<Rightarrow> validateBatch env this startDate endDate (n # seenInBatch) rest)"

definition addInvoices ::
  "'s Env \<Rightarrow> 's BuwisFriend \<Rightarrow> DigitalInvoice list \<Rightarrow> 's BuwisFriend outcome" where
  "addInvoices env this newInvoices =
     (if newInvoices = [] then Returned this
      else
        case getQuarterDateRange (Date_of env) (quarter (bf_metadata this))
               (year (bf_metadata this)) of
          Inl e \<Rightarrow> Threw e this
        | Inr (startDate, endDate) \<Rightarrow>
            (case validateBatch env this startDate endDate [] newInvoices of
               Some e \<Rightarrow> Threw e this
             | None \<Rightarrow>
                 refreshSummary env
                   (this\<lparr>invoices := sort_by_time (Date_of env) (invoices this @ newInvoices)\<rparr>)))"

section \<open>Quantities in which the properties are stated\<close>

abbreviation bd :: "DigitalInvoice \<Rightarrow> InvoiceBreakdown" where
  "bd iv \<equiv> breakdown (order_info iv)"

text \<open>The inputs of a recomputation, read from the invoice before \<open>computeBreakdown\<close> runs.\<close>

definition totalSales_of :: "DigitalInvoice \<Rightarrow> rat" where
  "totalSales_of iv = sum_list (map amount (orders (order_info iv)))"

definition otherDiscount_of :: "DigitalInvoice \<Rightarrow> rat" where
  "otherDiscount_of iv = other (discount (bd iv))"

definition netSales_of :: "DigitalInvoice \<Rightarrow> rat" where
  "netSales_of iv = totalSales_of iv - otherDiscount_of iv"

definition vatRate_of :: "DigitalInvoice \<Rightarrow> rat" where
  "vatRate_of iv = vat_rate (vat (bd iv))"

definition ptRate_of :: "DigitalInvoice \<Rightarrow> rat" where
  "ptRate_of iv = pt_rate (percentageTax (bd iv))"

definition whtRate_of :: "DigitalInvoice \<Rightarrow> rat" where
  "whtRate_of iv = wht_rate (withholdingTax (bd iv))"

definition inclusive_of :: "DigitalInvoice \<Rightarrow> bool" where
  "inclusive_of iv = isVATInclusive (vat (bd iv))"

text \<open>
  The SC/PWD discount amount that the breakdown already stores when the recomputation
  starts. The engine overwrites it only for an eligible customer.
\<close>

definition storedScPwd_of :: "DigitalInvoice \<Rightarrow> rat" where
  "storedScPwd_of iv = scPWD (discount (bd iv))"


section \<open>The algorithm and the rounding of the specification\<close>


text \<open>The monetary fields of a breakdown, before or after rounding.\<close>

record Amounts =
  a_totalSales :: rat
  a_scPWD :: rat
  a_other :: rat
  a_totalDiscount :: rat
  a_netReceivable :: rat
  a_totalAmountDue :: rat
  a_salesPT :: rat
  a_exemptSales :: rat
  a_totalVAT :: rat
  a_salesVATable :: rat
  a_vatExemptSales :: rat
  a_vatZeroRatedSales :: rat
  a_totalSalesVATInclusive :: rat
  a_totalPercentageTax :: rat
  a_totalWithheldTax :: rat

definition monetary :: "InvoiceBreakdown \<Rightarrow> Amounts" where
  "monetary b =
     \<lparr>a_totalSales = totalSales b,
      a_scPWD = scPWD (discount b),
      a_other = other (discount b),
      a_totalDiscount = totalDiscount (discount b),
      a_netReceivable = netReceivable b,
      a_totalAmountDue = totalAmountDue b,
      a_salesPT = salesPT b,
      a_exemptSales = exemptSales b,
      a_totalVAT = totalVAT (vat b),
      a_salesVATable = salesVATable (vat b),
      a_vatExemptSales = vatExemptSales (vat b),
      a_vatZeroRatedSales = vatZeroRatedSales (vat b),
      a_totalSalesVATInclusive = totalSalesVATInclusive (vat b),
      a_totalPercentageTax = totalPercentageTax (percentageTax b),
      a_totalWithheldTax = totalWithheldTax (withholdingTax b)\<rparr>"




section \<open>Example invoices and sessions\<close>

definition clock0 :: Clock where
  "clock0 = \<lparr>unixTime = 1762128000, isoNow = ''2025-11-03T00:00:00.000Z''\<rparr>"

definition line :: "rat \<Rightarrow> OrderMetadata" where
  "line a =
     \<lparr>label = ''Consulting'', description = None, quantity = 1, unit_of = ''job'',
      unitPrice = a, amount = a\<rparr>"

text \<open>Updates of the configuration that a setter performs before it recomputes.\<close>

definition with_ptRate :: "rat \<Rightarrow> DigitalInvoice \<Rightarrow> DigitalInvoice" where
  "with_ptRate r iv =
     iv\<lparr>order_info := (order_info iv)\<lparr>breakdown :=
        (bd iv)\<lparr>percentageTax := (percentageTax (bd iv))\<lparr>pt_rate := r\<rparr>\<rparr>\<rparr>\<rparr>"

definition with_vatRate :: "rat \<Rightarrow> DigitalInvoice \<Rightarrow> DigitalInvoice" where
  "with_vatRate r iv =
     iv\<lparr>order_info := (order_info iv)\<lparr>breakdown :=
        (bd iv)\<lparr>vat := (vat (bd iv))\<lparr>vat_rate := r\<rparr>\<rparr>\<rparr>\<rparr>"

definition with_oscaPWDNumber :: "string \<Rightarrow> DigitalInvoice \<Rightarrow> DigitalInvoice" where
  "with_oscaPWDNumber s iv = iv\<lparr>customer := (customer iv)\<lparr>oscaPWDNumber := Some s\<rparr>\<rparr>"

definition with_vat_config :: "VATSubType \<Rightarrow> bool \<Rightarrow> DigitalInvoice \<Rightarrow> DigitalInvoice" where
  "with_vat_config st incl iv =
     iv\<lparr>order_info := (order_info iv)\<lparr>breakdown :=
        (bd iv)\<lparr>vat := (vat (bd iv))\<lparr>vatSubtype := st, isVATInclusive := incl\<rparr>\<rparr>\<rparr>\<rparr>"

text \<open>A non-VAT invoice of 10,000 with the default rates (3 percent, 5 percent).\<close>

definition ex_nonvat :: DigitalInvoice where
  "ex_nonvat = setListOrders [line 10000] (initialize clock0 NON_VAT)"






text \<open>An invoice without order lines.\<close>

definition ex_empty :: DigitalInvoice where
  "ex_empty = initialize clock0 VAT"


text \<open>A VAT-exclusive exempt invoice of 5,000 with 5 percent withholding.\<close>

definition ex_exempt :: DigitalInvoice where
  "ex_exempt =
     with_vat_config EXEMPT False
       ((initialize clock0 VAT)\<lparr>order_info :=
          (order_info (initialize clock0 VAT))\<lparr>orders := [line 5000]\<rparr>\<rparr>)"

text \<open>A VAT-exclusive standard invoice of 1,000.\<close>

definition ex_exclusive :: DigitalInvoice where
  "ex_exclusive =
     with_vat_config STANDARD False (setListOrders [line 1000] (initialize clock0 VAT))"

text \<open>An invoice created with an identifier of its own.\<close>

definition ex_named :: DigitalInvoice where
  "ex_named =
     (let d = initialize clock0 NON_VAT
      in setListOrders [line 10000]
           (DigitalInvoice_new clock0 (Some ''INV-2025-001'') (metadata d) (customer d)
              (issuer d) (order_info d) (payment d) (Some ''2025-02-10T08:00:00.000Z'')))"

text \<open>
  A session for the first quarter of 2025. The environment knows the time values of the
  dates that occur; its summary carries no data.
\<close>

definition env0 :: "unit Env" where
  "env0 =
     \<lparr>Date_of = map_of
        [(''2025-01-01T00:00:00.000Z'', 1735689600000),
         (''2025-03-31T23:59:59.999Z'', 1743465599999),
         (''2025-02-10T08:00:00.000Z'', 1739174400000),
         (''2025-03-05T08:00:00.000Z'', 1741161600000),
         (''2025-05-01T00:00:00.000Z'', 1746057600000)],
      summary_clearInvoices = (\<lambda>s. Inr s),
      summary_initialize = (\<lambda>t u q y ty. Inr ()),
      summary_updateInvoices = (\<lambda>s is. Inr s)\<rparr>"

definition invoice_at :: "string \<Rightarrow> string \<Rightarrow> DigitalInvoice" where
  "invoice_at n t =
     (let iv = setListOrders [line 10000] (initialize clock0 NON_VAT)
      in iv\<lparr>metadata := (metadata iv)\<lparr>invoiceNumber := n\<rparr>, timestamp := t\<rparr>)"

definition session0 :: "unit BuwisFriend" where
  "session0 =
     \<lparr>bf_id = ''buwisfriend-user-1-1762128000'',
      bf_metadata =
        \<lparr>taxpayer = issuer (initialize clock0 NON_VAT),
         year = 2025,
         quarter = Q1,
         userID = ''user-1'',
         taxSettings =
           \<lparr>ts_vat = \<lparr>vs_rate = 12 / 100, vs_type = VAT\<rparr>,
            ts_percentageTax = 3 / 10,
            incomeTaxType = GRADUATED\<rparr>\<rparr>,
      invoices = [invoice_at ''INV-001'' ''2025-02-10T08:00:00.000Z''],
      summary = (),
      bf_timestamp = ''2025-11-03T00:00:00.000Z''\<rparr>"

text \<open>
  An invoice offends the session when its number is already held by an invoice of the
  session, or when its issue date lies outside the period of the session.
\<close>

definition number_taken :: "'s BuwisFriend \<Rightarrow> DigitalInvoice \<Rightarrow> bool" where
  "number_taken this i =
     list_ex (\<lambda>j. invoiceNumber (metadata j) = invoiceNumber (metadata i)) (invoices this)"

definition outside_period :: "'s Env \<Rightarrow> 's BuwisFriend \<Rightarrow> DigitalInvoice \<Rightarrow> bool" where
  "outside_period env this i =
     (case getQuarterDateRange (Date_of env) (quarter (bf_metadata this))
             (year (bf_metadata this)) of
        Inr (Some periodStart, Some periodEnd) \<Rightarrow>
          (case Date_of env (timestamp i) of
             Some t \<Rightarrow> t < periodStart \<or> periodEnd < t
           | None \<Rightarrow> False)
      | _ \<Rightarrow> False)"

section \<open>Rounding\<close>

lemma floor_rat_numeral_div:
  "\<lfloor>(numeral a / numeral b :: rat)\<rfloor> = numeral a div numeral b"
  using floor_divide_of_int_eq [of "numeral a" "numeral b", where ?'a = rat] by simp

lemma floor_rat_neg_numeral_div:
  "\<lfloor>(- (numeral a / numeral b) :: rat)\<rfloor> = - numeral a div numeral b"
  using floor_divide_of_int_eq [of "- numeral a" "numeral b", where ?'a = rat] by simp

lemma floor_rat_half: "\<lfloor>(1 / 2 :: rat)\<rfloor> = 0"
  by (simp add: floor_eq_iff)

lemma floor_int_plus_half: "\<lfloor>(of_int n + 1 / 2 :: rat)\<rfloor> = n"
  by (rule floor_unique) simp_all

lemmas round_eval =
  round_num_def Math_round_def floor_rat_numeral_div floor_rat_neg_numeral_div floor_rat_half

lemma round_num_zero: "round_num 0 = 0"
  by (simp add: round_eval)

lemma round_num_hundredths: "round_num (of_int k / 100) = of_int k / 100"
proof -
  have "\<lfloor>(of_int k :: rat) + 1 / 2\<rfloor> = k"
    by (rule floor_unique) simp_all
  then show ?thesis
    by (simp add: round_num_def Math_round_def)
qed

lemma round_num_of_int: "round_num (of_int k) = of_int k"
  using round_num_hundredths [of "k * 100"] by simp

lemma round_num_numeral: "round_num (numeral n) = numeral n"
  using round_num_of_int [of "numeral n"] by simp


section \<open>The engine in closed form\<close>

lemma foldl_amount:
  "foldl (\<lambda>acc item. acc + amount item) a xs = a + sum_list (map amount xs)"
  by (induction xs arbitrary: a) simp_all

lemmas input_defs =
  totalSales_of_def otherDiscount_of_def netSales_of_def vatRate_of_def ptRate_of_def
  whtRate_of_def inclusive_of_def storedScPwd_of_def

lemma computeBreakdown_empty:
  assumes "orders (order_info iv) = []"
  shows "bd (computeBreakdown iv) =
    \<lparr>totalSales = 0,
     netReceivable = 0,
     discount = \<lparr>scPWD = 0, other = 0, totalDiscount = 0\<rparr>,
     totalAmountDue = 0,
     salesPT = 0,
     exemptSales = 0,
     vat = \<lparr>vat_rate = (if vat_type (metadata iv) = VAT then defaultTaxRates_vat else 0),
            vatSubtype = STANDARD,
            isVATInclusive = inclusive_of iv,
            totalVAT = 0,
            salesVATable = 0,
            vatExemptSales = 0,
            vatZeroRatedSales = 0,
            totalSalesVATInclusive = 0\<rparr>,
     percentageTax =
       \<lparr>pt_rate = (if vat_type (metadata iv) = VAT then 0 else defaultTaxRates_percentageTax),
        totalPercentageTax = 0\<rparr>,
     withholdingTax = \<lparr>wht_rate = whtRate_of iv, totalWithheldTax = 0\<rparr>\<rparr>"
  using assms by (simp add: computeBreakdown_def Let_def input_defs)

lemma computeBreakdown_nonVAT:
  assumes "vat_type (metadata iv) \<noteq> VAT" and "orders (order_info iv) \<noteq> []"
  shows "bd (computeBreakdown iv) =
    (let ns = netSales_of iv;
         sc = (if isEligibleForScPwdDiscount iv then ns * defaultSCPWDDiscount
               else storedScPwd_of iv);
         wht = whtRate_of iv;
         pt = or_else (ptRate_of iv) defaultTaxRates_percentageTax
     in \<lparr>totalSales = round_num (totalSales_of iv),
         netReceivable = round_num (ns - ns * wht - (ns - sc) * pt),
         discount = \<lparr>scPWD = round_num sc,
                     other = round_num (otherDiscount_of iv),
                     totalDiscount = round_num (sc + otherDiscount_of iv)\<rparr>,
         totalAmountDue = round_num (ns - ns * wht),
         salesPT = (if sc > 0 then round_num (ns - sc) else round_num ns),
         exemptSales = 0,
         vat = \<lparr>vat_rate = 0,
                vatSubtype = STANDARD,
                isVATInclusive = inclusive_of iv,
                totalVAT = 0,
                salesVATable = 0,
                vatExemptSales = 0,
                vatZeroRatedSales = 0,
                totalSalesVATInclusive = 0\<rparr>,
         percentageTax = \<lparr>pt_rate = pt, totalPercentageTax = round_num ((ns - sc) * pt)\<rparr>,
         withholdingTax = \<lparr>wht_rate = wht, totalWithheldTax = round_num (ns * wht)\<rparr>\<rparr>)"
  using assms
  by (simp add: computeBreakdown_def Let_def input_defs foldl_amount or_else_def)

lemma computeBreakdown_VAT:
  assumes "vat_type (metadata iv) = VAT" and "orders (order_info iv) \<noteq> []"
  shows "bd (computeBreakdown iv) =
    (let ns = netSales_of iv;
         incl = inclusive_of iv;
         vr = or_else (vatRate_of iv) defaultTaxRates_vat;
         sc = (if isEligibleForScPwdDiscount iv
               then (if incl then ns / (1 + vr) * defaultSCPWDDiscount
                     else ns * defaultSCPWDDiscount)
               else storedScPwd_of iv);
         wht = whtRate_of iv;
         st = vatSubtype (vat (bd iv));
         base = (if st = STANDARD then (if incl then ns / (1 + vr) else ns - sc) else 0);
         vatable = (if st = STANDARD then (if incl then ns / (1 + vr) - sc else ns - sc) else 0);
         tvat = vatable * vr;
         tincl = (if incl then ns else vatable + tvat)
     in \<lparr>totalSales = round_num (totalSales_of iv),
         netReceivable = round_num (base - base * wht),
         discount = \<lparr>scPWD = round_num sc,
                     other = round_num (otherDiscount_of iv),
                     totalDiscount = round_num (sc + otherDiscount_of iv)\<rparr>,
         totalAmountDue = round_num (tincl - base * wht),
         salesPT = 0,
         exemptSales = 0,
         vat = \<lparr>vat_rate = vr,
                vatSubtype = st,
                isVATInclusive = incl,
                totalVAT = round_num tvat,
                salesVATable = round_num vatable,
                vatExemptSales =
                  round_num (if st = EXEMPT then ns else if st = STANDARD \<and> incl then sc else 0),
                vatZeroRatedSales = round_num (if st = ZERO_RATED then ns else 0),
                totalSalesVATInclusive = round_num tincl\<rparr>,
         percentageTax = \<lparr>pt_rate = 0, totalPercentageTax = 0\<rparr>,
         withholdingTax = \<lparr>wht_rate = wht, totalWithheldTax = round_num (base * wht)\<rparr>\<rparr>)"
  using assms
  by (cases "vatSubtype (vat (bd iv))")
     (simp_all add: computeBreakdown_def Let_def input_defs foldl_amount or_else_def)

lemma computeBreakdown_keeps_inclusive:
  "inclusive_of (computeBreakdown iv) = inclusive_of iv"
proof (cases "orders (order_info iv) = []")
  case True
  then show ?thesis
    by (simp add: computeBreakdown_empty inclusive_of_def [of "computeBreakdown iv"])
next
  case False
  show ?thesis
  proof (cases "vat_type (metadata iv) = VAT")
    case True
    with False show ?thesis
      by (simp add: computeBreakdown_VAT Let_def inclusive_of_def [of "computeBreakdown iv"])
  next
    case False
    with \<open>orders (order_info iv) \<noteq> []\<close> show ?thesis
      by (simp add: computeBreakdown_nonVAT Let_def inclusive_of_def [of "computeBreakdown iv"])
  qed
qed

section \<open>Evaluating the examples\<close>

lemmas build_defs =
  initialize_def DigitalInvoice_new_def setListOrders_def disableWithholdingTax_def
  disablePercentageTax_def setCustomerOSCAPWDNumber_def with_ptRate_def with_vatRate_def
  with_oscaPWDNumber_def with_vat_config_def line_def

lemmas engine_defs =
  computeBreakdown_def Let_def or_else_def isEligibleForScPwdDiscount_def
  defaultTaxRates_vat_def defaultTaxRates_percentageTax_def defaultTaxRates_withholdingTax_def
  defaultSCPWDDiscount_def trim_def is_ws_def

section \<open>Income tax\<close>

text \<open>
  C4. Under the flat regime the tax is zero up to 250,000 and 8 percent of the excess
  above; under the graduated regime it follows the bracket table, every upper bound
  included in its bracket. An income of 500,000 owes 42,500 graduated and 20,000 flat.
\<close>

theorem C4_income_tax_schedule:
  "computeGraduatedIncomeTax income FLAT =
     (if income \<le> 250000 then 0 else (income - 250000) * (8 / 100))
   \<and> computeGraduatedIncomeTax income GRADUATED =
     (if income \<le> 250000 then 0
      else if income \<le> 400000 then (income - 250000) * (15 / 100)
      else if income \<le> 800000 then 22500 + (income - 400000) * (20 / 100)
      else if income \<le> 2000000 then 102500 + (income - 800000) * (25 / 100)
      else if income \<le> 8000000 then 402500 + (income - 2000000) * (30 / 100)
      else 2202500 + (income - 8000000) * (35 / 100))
   \<and> computeGraduatedIncomeTax 500000 GRADUATED = 42500
   \<and> computeGraduatedIncomeTax 500000 FLAT = 20000"
  by (simp add: computeGraduatedIncomeTax_def Let_def)

section \<open>The breakdown of an invoice\<close>

text \<open>
  C5. On an invoice without order lines the recomputation returns (the engine has no
  failing path) and sets every monetary field to zero, the rate of the inactive tax
  block to zero, and the rate of the active block to its default: 12 percent VAT on a
  VAT-registered invoice, 3 percent percentage tax otherwise.
\<close>

theorem C5_no_order_lines:
  assumes "orders (order_info iv) = []"
  shows "monetary (bd (computeBreakdown iv)) =
       \<lparr>a_totalSales = 0, a_scPWD = 0, a_other = 0, a_totalDiscount = 0,
        a_netReceivable = 0, a_totalAmountDue = 0, a_salesPT = 0, a_exemptSales = 0,
        a_totalVAT = 0, a_salesVATable = 0, a_vatExemptSales = 0,
        a_vatZeroRatedSales = 0, a_totalSalesVATInclusive = 0,
        a_totalPercentageTax = 0, a_totalWithheldTax = 0\<rparr>
    \<and> vat_rate (vat (bd (computeBreakdown iv))) =
        (if vat_type (metadata iv) = VAT then defaultTaxRates_vat else 0)
    \<and> pt_rate (percentageTax (bd (computeBreakdown iv))) =
        (if vat_type (metadata iv) = VAT then 0 else defaultTaxRates_percentageTax)
    \<and> defaultTaxRates_vat = 12 / 100
    \<and> defaultTaxRates_percentageTax = 3 / 100"
  using assms
  by (simp add: computeBreakdown_empty monetary_def
      defaultTaxRates_vat_def defaultTaxRates_percentageTax_def)

theorem C5_no_order_lines_witness:
  "orders (order_info ex_empty) = []
   \<and> monetary (bd (computeBreakdown ex_empty)) =
       \<lparr>a_totalSales = 0, a_scPWD = 0, a_other = 0, a_totalDiscount = 0,
        a_netReceivable = 0, a_totalAmountDue = 0, a_salesPT = 0, a_exemptSales = 0,
        a_totalVAT = 0, a_salesVATable = 0, a_vatExemptSales = 0,
        a_vatZeroRatedSales = 0, a_totalSalesVATInclusive = 0,
        a_totalPercentageTax = 0, a_totalWithheldTax = 0\<rparr>
   \<and> vat_rate (vat (bd (computeBreakdown ex_empty))) = 12 / 100
   \<and> pt_rate (percentageTax (bd (computeBreakdown ex_empty))) = 0"
proof -
  have h: "orders (order_info ex_empty) = []"
    by (simp add: ex_empty_def initialize_def DigitalInvoice_new_def)
  have t: "vat_type (metadata ex_empty) = VAT"
    by (simp add: ex_empty_def initialize_def DigitalInvoice_new_def)
  from C5_no_order_lines [OF h] h t show ?thesis
    by (simp add: defaultTaxRates_vat_def)
qed




text \<open>
  The rate of zero in this example is what \<open>disablePercentageTax\<close> configures before it
  recomputes: disabling the percentage tax leaves the invoice taxed at 3 percent.
\<close>

lemma disablePercentageTax_keeps_tax:
  "disablePercentageTax iv = computeBreakdown (with_ptRate 0 iv)
   \<and> pt_rate (percentageTax (bd (disablePercentageTax ex_nonvat))) = 3 / 100
   \<and> totalPercentageTax (percentageTax (bd (disablePercentageTax ex_nonvat))) = 300"
  by (simp add: ex_nonvat_def build_defs engine_defs round_eval)








text \<open>
  A discount that was computed while the customer was eligible stays in the breakdown
  when the OSCA/PWD number is cleared afterwards: the engine assigns the discount only
  for an eligible customer and never resets it.
\<close>

lemma stale_scPwd_after_clearing:
  "\<not> isEligibleForScPwdDiscount
       (setCustomerOSCAPWDNumber '''' (setCustomerOSCAPWDNumber ''OSCA-12345'' ex_nonvat))
   \<and> scPWD (discount (bd
       (setCustomerOSCAPWDNumber '''' (setCustomerOSCAPWDNumber ''OSCA-12345'' ex_nonvat)))) = 2000
   \<and> salesPT (bd
       (setCustomerOSCAPWDNumber '''' (setCustomerOSCAPWDNumber ''OSCA-12345'' ex_nonvat))) = 8000"
  by (simp add: ex_nonvat_def build_defs engine_defs round_eval)

section \<open>Rounding of the outputs\<close>








section \<open>Exempt and zero-rated invoices\<close>

text \<open>
  C9. On a VAT-registered invoice with an order line whose subtype is EXEMPT or
  ZERO_RATED the recomputation reports no withheld tax and no net receivable,
  whatever the amounts and the withholding rate, and on a VAT-exclusive one no amount
  due and no VAT-inclusive total either. Of the sales buckets only \<open>vatExemptSales\<close>
  (EXEMPT) or \<open>vatZeroRatedSales\<close> (ZERO_RATED) carries the net sales, rounded as every
  output is; VAT-able sales, VAT, \<open>salesPT\<close> and \<open>exemptSales\<close> are zero.
\<close>

theorem C9_exempt_zero_rated:
  assumes "vat_type (metadata iv) = VAT"
    and "orders (order_info iv) \<noteq> []"
    and "vatSubtype (vat (bd iv)) = EXEMPT \<or> vatSubtype (vat (bd iv)) = ZERO_RATED"
  shows "(let b = bd (computeBreakdown iv) in
          totalWithheldTax (withholdingTax b) = 0
        \<and> netReceivable b = 0
        \<and> (\<not> inclusive_of iv \<longrightarrow> totalAmountDue b = 0 \<and> totalSalesVATInclusive (vat b) = 0)
        \<and> salesVATable (vat b) = 0 \<and> totalVAT (vat b) = 0
        \<and> salesPT b = 0 \<and> exemptSales b = 0
        \<and> (vatSubtype (vat (bd iv)) = EXEMPT \<longrightarrow>
             vatExemptSales (vat b) = round_num (netSales_of iv) \<and> vatZeroRatedSales (vat b) = 0)
        \<and> (vatSubtype (vat (bd iv)) = ZERO_RATED \<longrightarrow>
             vatZeroRatedSales (vat b) = round_num (netSales_of iv) \<and> vatExemptSales (vat b) = 0))"
  using assms(3) computeBreakdown_VAT [OF assms(1) assms(2)]
  by (auto simp: Let_def round_num_zero)

theorem C9_exempt_zero_rated_witness:
  "vat_type (metadata ex_exempt) = VAT
   \<and> orders (order_info ex_exempt) \<noteq> []
   \<and> vatSubtype (vat (bd ex_exempt)) = EXEMPT
   \<and> \<not> inclusive_of ex_exempt
   \<and> whtRate_of ex_exempt = 5 / 100
   \<and> netSales_of ex_exempt = 5000
   \<and> totalWithheldTax (withholdingTax (bd (computeBreakdown ex_exempt))) = 0
   \<and> netReceivable (bd (computeBreakdown ex_exempt)) = 0
   \<and> totalAmountDue (bd (computeBreakdown ex_exempt)) = 0
   \<and> vatExemptSales (vat (bd (computeBreakdown ex_exempt))) = 5000
   \<and> vatZeroRatedSales (vat (bd (computeBreakdown ex_exempt))) = 0"
proof -
  have v: "vat_type (metadata ex_exempt) = VAT" "orders (order_info ex_exempt) \<noteq> []"
    "vatSubtype (vat (bd ex_exempt)) = EXEMPT" "\<not> inclusive_of ex_exempt"
    "whtRate_of ex_exempt = 5 / 100" "netSales_of ex_exempt = 5000"
    by (simp_all add: ex_exempt_def build_defs engine_defs input_defs)
  have h3: "vatSubtype (vat (bd ex_exempt)) = EXEMPT \<or> vatSubtype (vat (bd ex_exempt)) = ZERO_RATED"
    by (simp add: v)
  from C9_exempt_zero_rated [OF v(1) v(2) h3] show ?thesis
    by (simp add: Let_def v round_num_numeral)
qed

section \<open>Toggling the VAT-inclusive flag\<close>

text \<open>
  C10. On a VAT-registered invoice \<open>toggleVATInclusive(false)\<close> does what
  \<open>toggleVATInclusive()\<close> does: it negates the flag, so that a VAT-exclusive invoice
  becomes VAT-inclusive.
\<close>

theorem C10_toggle_false_negates:
  assumes "vat_type (metadata iv) = VAT"
  shows "toggleVATInclusive (Some False) iv = toggleVATInclusive None iv
    \<and> (\<exists>iv'. toggleVATInclusive (Some False) iv = Returned iv'
           \<and> inclusive_of iv' = (\<not> inclusive_of iv))
    \<and> (\<not> inclusive_of iv \<longrightarrow>
         (\<exists>iv'. toggleVATInclusive (Some False) iv = Returned iv' \<and> inclusive_of iv'))"
  using assms
  by (simp add: toggleVATInclusive_def Let_def computeBreakdown_keeps_inclusive)
     (simp add: inclusive_of_def)

theorem C10_toggle_false_negates_witness:
  "vat_type (metadata ex_exclusive) = VAT
   \<and> \<not> inclusive_of ex_exclusive
   \<and> toggleVATInclusive (Some False) ex_exclusive = toggleVATInclusive None ex_exclusive
   \<and> (\<exists>iv'. toggleVATInclusive (Some False) ex_exclusive = Returned iv' \<and> inclusive_of iv')"
proof -
  have v: "vat_type (metadata ex_exclusive) = VAT" "\<not> inclusive_of ex_exclusive"
    by (simp_all add: ex_exclusive_def build_defs engine_defs input_defs)
  from C10_toggle_false_negates [OF v(1)] v show ?thesis
    by blast
qed

section \<open>Insertion into a session\<close>

lemma doesInvoiceExist_taken:
  assumes "number_taken this i"
  shows "doesInvoiceExist this i = Inl InvalidInvoiceInput \<or> doesInvoiceExist this i = Inr True"
  using assms by (simp add: doesInvoiceExist_def number_taken_def Let_def)

text \<open>The validation loop finds every offending invoice and every repeated number.\<close>

lemma validateBatch_rejects:
  assumes "(\<exists>i \<in> set batch. number_taken this i
              \<or> date_lt (Date_of env (timestamp i)) startDate
              \<or> date_lt endDate (Date_of env (timestamp i)))
           \<or> \<not> distinct (map (\<lambda>i. invoiceNumber (metadata i)) batch)
           \<or> (\<exists>i \<in> set batch. invoiceNumber (metadata i) \<in> set seen)"
  shows "validateBatch env this startDate endDate seen batch \<noteq> None"
  using assms
proof (induction batch arbitrary: seen)
  case Nil
  then show ?case by simp
next
  case (Cons a batch)
  let ?n = "invoiceNumber (metadata a)"
  show ?case
  proof (cases "date_lt (Date_of env (timestamp a)) startDate
                \<or> date_lt endDate (Date_of env (timestamp a)) \<or> ?n \<in> set seen")
    case True
    then show ?thesis
      by (auto simp: Let_def)
  next
    case ok: False
    show ?thesis
    proof (cases "doesInvoiceExist this a")
      case (Inl e)
      with ok show ?thesis
        by (simp add: Let_def)
    next
      case (Inr found)
      show ?thesis
      proof (cases found)
        case True
        with Inr ok show ?thesis
          by (simp add: Let_def)
      next
        case False
        with Inr have nt: "\<not> number_taken this a"
          using doesInvoiceExist_taken [of this a] by auto
        have rest: "(\<exists>i \<in> set batch. number_taken this i
              \<or> date_lt (Date_of env (timestamp i)) startDate
              \<or> date_lt endDate (Date_of env (timestamp i)))
           \<or> \<not> distinct (map (\<lambda>i. invoiceNumber (metadata i)) batch)
           \<or> (\<exists>i \<in> set batch. invoiceNumber (metadata i) \<in> set (?n # seen))"
          using Cons.prems ok nt by auto
        from Cons.IH [OF rest] Inr False ok show ?thesis
          by (simp add: Let_def)
      qed
    qed
  qed
qed

lemma outside_period_dates:
  assumes "outside_period env this i"
    and "getQuarterDateRange (Date_of env) (quarter (bf_metadata this))
           (year (bf_metadata this)) = Inr (startDate, endDate)"
  shows "date_lt (Date_of env (timestamp i)) startDate
         \<or> date_lt endDate (Date_of env (timestamp i))"
  using assms
  by (auto simp: outside_period_def date_lt_def split: option.splits)

text \<open>
  C7. An insertion of an invoice whose number an invoice of the session already
  carries, or whose issue date lies outside the period of the session, throws and
  leaves the session as it was, the invoice list included; so does the insertion of
  a batch that holds such an invoice or holds one number twice: nothing of the batch
  is applied.
\<close>

theorem C7_rejected_insertion:
  "(number_taken this i \<or> outside_period env this i
      \<longrightarrow> (\<exists>e. addInvoice env this i = Threw e this))
   \<and> ((\<exists>i \<in> set batch. number_taken this i \<or> outside_period env this i)
        \<or> \<not> distinct (map (\<lambda>i. invoiceNumber (metadata i)) batch)
      \<longrightarrow> (\<exists>e. addInvoices env this batch = Threw e this))"
proof (intro conjI impI)
  assume a: "number_taken this i \<or> outside_period env this i"
  show "\<exists>e. addInvoice env this i = Threw e this"
  proof (cases "doesInvoiceExist this i")
    case (Inl e)
    then show ?thesis
      by (simp add: addInvoice_def)
  next
    case (Inr found)
    show ?thesis
    proof (cases found)
      case True
      with Inr show ?thesis
        by (simp add: addInvoice_def)
    next
      case False
      with Inr have "\<not> number_taken this i"
        using doesInvoiceExist_taken [of this i] by auto
      with a have out: "outside_period env this i"
        by simp
      then obtain startDate endDate where
        r: "getQuarterDateRange (Date_of env) (quarter (bf_metadata this))
              (year (bf_metadata this)) = Inr (startDate, endDate)"
        by (auto simp: outside_period_def split: sum.splits)
      from outside_period_dates [OF out r] Inr False r show ?thesis
        by (simp add: addInvoice_def Let_def)
    qed
  qed
next
  assume b: "(\<exists>i \<in> set batch. number_taken this i \<or> outside_period env this i)
        \<or> \<not> distinct (map (\<lambda>i. invoiceNumber (metadata i)) batch)"
  then have ne: "batch \<noteq> []"
    by auto
  show "\<exists>e. addInvoices env this batch = Threw e this"
  proof (cases "getQuarterDateRange (Date_of env) (quarter (bf_metadata this))
                  (year (bf_metadata this))")
    case (Inl e)
    with ne show ?thesis
      by (simp add: addInvoices_def)
  next
    case (Inr range)
    obtain startDate endDate where range: "range = (startDate, endDate)"
      by (cases range)
    have "(\<exists>i \<in> set batch. number_taken this i
              \<or> date_lt (Date_of env (timestamp i)) startDate
              \<or> date_lt endDate (Date_of env (timestamp i)))
           \<or> \<not> distinct (map (\<lambda>i. invoiceNumber (metadata i)) batch)
           \<or> (\<exists>i \<in> set batch. invoiceNumber (metadata i) \<in> set [])"
      using b outside_period_dates [OF _ Inr [unfolded range]] by blast
    from validateBatch_rejects [OF this]
    obtain e where "validateBatch env this startDate endDate [] batch = Some e"
      by blast
    with ne Inr range show ?thesis
      by (simp add: addInvoices_def)
  qed
qed

lemmas session_defs =
  session0_def env0_def invoice_at_def addInvoice_def addInvoices_def doesInvoiceExist_def
  getQuarterDateRange_def number_taken_def outside_period_def date_lt_def Let_def
  trim_def is_ws_def char_of_def bit_Suc_0_iff

theorem C7_rejected_insertion_witness:
  "number_taken session0 (invoice_at ''INV-001'' ''2025-03-05T08:00:00.000Z'')
   \<and> addInvoice env0 session0 (invoice_at ''INV-001'' ''2025-03-05T08:00:00.000Z'')
       = Threw (InvoiceExists ''INV-001'') session0
   \<and> outside_period env0 session0 (invoice_at ''INV-002'' ''2025-05-01T00:00:00.000Z'')
   \<and> addInvoice env0 session0 (invoice_at ''INV-002'' ''2025-05-01T00:00:00.000Z'')
       = Threw (NotFileable ''INV-002'') session0
   \<and> \<not> distinct (map (\<lambda>i. invoiceNumber (metadata i))
         [invoice_at ''INV-002'' ''2025-03-05T08:00:00.000Z'',
          invoice_at ''INV-002'' ''2025-02-10T08:00:00.000Z''])
   \<and> (\<exists>e. addInvoices env0 session0
         [invoice_at ''INV-002'' ''2025-03-05T08:00:00.000Z'',
          invoice_at ''INV-002'' ''2025-02-10T08:00:00.000Z''] = Threw e session0)"
proof -
  have t: "number_taken session0 (invoice_at ''INV-001'' ''2025-03-05T08:00:00.000Z'')"
    by (simp add: session_defs)
  have o: "outside_period env0 session0 (invoice_at ''INV-002'' ''2025-05-01T00:00:00.000Z'')"
    by (simp add: session_defs)
  have d: "\<not> distinct (map (\<lambda>i. invoiceNumber (metadata i))
         [invoice_at ''INV-002'' ''2025-03-05T08:00:00.000Z'',
          invoice_at ''INV-002'' ''2025-02-10T08:00:00.000Z''])"
    by (simp add: invoice_at_def Let_def)
  have e1: "addInvoice env0 session0 (invoice_at ''INV-001'' ''2025-03-05T08:00:00.000Z'')
       = Threw (InvoiceExists ''INV-001'') session0"
    by (simp add: session_defs)
  have e2: "addInvoice env0 session0 (invoice_at ''INV-002'' ''2025-05-01T00:00:00.000Z'')
       = Threw (NotFileable ''INV-002'') session0"
    by (simp add: session_defs)
  from C7_rejected_insertion
         [of session0 "invoice_at ''INV-001'' ''2025-03-05T08:00:00.000Z''" env0
           "[invoice_at ''INV-002'' ''2025-03-05T08:00:00.000Z'',
             invoice_at ''INV-002'' ''2025-02-10T08:00:00.000Z'']"] t d
  have "\<exists>e. addInvoices env0 session0
         [invoice_at ''INV-002'' ''2025-03-05T08:00:00.000Z'',
          invoice_at ''INV-002'' ''2025-02-10T08:00:00.000Z''] = Threw e session0"
    by blast
  with t o d e1 e2 show ?thesis
    by blast
qed

text \<open>An invoice of the period with a fresh number is inserted at its place.\<close>

lemma addInvoice_accepts:
  "addInvoice env0 session0 (invoice_at ''INV-002'' ''2025-01-01T00:00:00.000Z'') =
     Returned (session0\<lparr>invoices :=
       [invoice_at ''INV-002'' ''2025-01-01T00:00:00.000Z'',
        invoice_at ''INV-001'' ''2025-02-10T08:00:00.000Z'']\<rparr>)"
  by (simp add: session_defs refreshSummary_def sort_by_time_def time_le_def)

section \<open>Serialisation\<close>

text \<open>
  Parsing what \<open>toJSON\<close> produced succeeds when the identifier is not empty, and
  yields the invoice with a newly generated identifier.
\<close>

lemma parseFromJSON_toJSON:
  assumes "inv_id iv \<noteq> []"
  shows "parseFromJSON clock (toJSON iv) =
     Inr (iv\<lparr>inv_id := autogenerateID clock
                 (str_or_else (Some (invoiceNumber (metadata iv))) ''bir-invoice''),
             timestamp := str_or_else (Some (timestamp iv)) (isoNow clock)\<rparr>)"
  using assms
  by (cases iv) (simp add: parseFromJSON_def toJSON_def DigitalInvoice_new_def str_or_else_def)

lemma roundtrip_changes_id:
  assumes "inv_id iv \<noteq> []" and "take 8 (inv_id iv) \<noteq> ''invoice-''"
  shows "\<exists>p. parseFromJSON clock (toJSON iv) = Inr p \<and> toJSON p \<noteq> toJSON iv"
proof -
  have "take 8 (autogenerateID clock x) = ''invoice-''" for x
    by (simp add: autogenerateID_def Let_def)
  with assms(2) have "autogenerateID clock x \<noteq> inv_id iv" for x
    by metis
  then show ?thesis
    unfolding parseFromJSON_toJSON [OF assms(1)] by (simp add: toJSON_def)
qed

text \<open>
  C8. The claim holds for \<open>Money\<close> and fails for \<open>DigitalInvoice\<close>: the invoice
  created as INV-2025-001 comes back from \<open>parseFromJSON\<close> with the identifier
  invoice-1000a0001001-1762128000, so that its serialisation differs from the one that
  was parsed. The parser checks that an \<open>id\<close> is present and then passes
  \<open>undefined\<close> to the constructor.
\<close>

theorem C8_invoice_roundtrip_loses_id:
  "inv_id ex_named = ''INV-2025-001''
   \<and> (\<exists>p. parseFromJSON clock0 (toJSON ex_named) = Inr p
          \<and> j_id (toJSON p) = Some ''invoice-1000a0001001-1762128000''
          \<and> toJSON p \<noteq> toJSON ex_named)"
proof -
  have i: "inv_id ex_named = ''INV-2025-001''"
    by (simp add: ex_named_def build_defs Let_def computeBreakdown_def str_or_else_def)
  have n: "invoiceNumber (metadata ex_named) = ''1000A0001001''"
    by (simp add: ex_named_def build_defs Let_def computeBreakdown_def)
  have s: "string_of_nat 1762128000 = ''1762128000''"
    by (simp add: char_of_def bit_Suc_0_iff)
  have g: "autogenerateID clock0 ''1000A0001001'' = ''invoice-1000a0001001-1762128000''"
    by (simp add: autogenerateID_def clock0_def Let_def s strip_dashes_def
        toLowerCase_char_def is_slug_char_def char_of_def bit_Suc_0_iff)
  have ne: "inv_id ex_named \<noteq> []"
    by (simp add: i)
  show ?thesis
    unfolding parseFromJSON_toJSON [OF ne] n
    by (simp add: i g toJSON_def str_or_else_def)
qed

text \<open>The same round trip on \<open>Money\<close> reproduces the serialised form.\<close>

lemma ROUND_HALF_UP_of_int: "ROUND_HALF_UP (of_int k) = k"
proof (cases "0 \<le> k")
  case True
  then show ?thesis
    by (simp add: ROUND_HALF_UP_def floor_int_plus_half)
next
  case False
  have "\<lfloor>(- of_int k + 1 / 2 :: rat)\<rfloor> = - k"
    using floor_int_plus_half [of "- k"] by simp
  with False show ?thesis
    by (simp add: ROUND_HALF_UP_def)
qed

lemma toUpperCase_char_idem: "toUpperCase_char (toUpperCase_char c) = toUpperCase_char c"
proof -
  have lt: "(of_char c :: nat) < 256"
    using of_char_mod_256 [of c, where ?'a = nat] mod_less_divisor [of 256 "of_char c"]
    by simp
  from lt have "(of_char c - 32 :: nat) mod 256 = of_char c - 32"
    by (intro mod_less) arith
  then have "of_char (char_of (of_char c - 32 :: nat)) = (of_char c - 32 :: nat)"
    by (simp only: of_char_of)
  then show ?thesis
    by (auto simp: toUpperCase_char_def Let_def)
qed

lemma Money_roundtrip:
  "Money_toJSON (Money_parseFromJSON (Money_toJSON (Money_new v c))) =
     Money_toJSON (Money_new v c)"
  by (simp add: Money_toJSON_def Money_parseFromJSON_def Money_new_def toFixed2_def
      ROUND_HALF_UP_of_int toUpperCase_char_idem)

end
